theory Spec2Isabelle
  imports Main
begin

section \<open>Tokens and the lexer interface\<close>

text \<open>
  The parser of \<^verbatim>\<open>src/parse/parser.go\<close> pulls tokens from a lexer that is not part of the
  source tree. The token kinds are the ones the parser names.
\<close>

datatype TokenType =
    tkError | tkEof | tkNumber | tkCharacter | tkString | tkIdent | tkKeyword
  | tkOperator | tkTernary | tkColon | tkSemicolon | tkComma
  | tkOpenParen | tkCloseParen | tkOpenBrace | tkCloseBrace
  | tkOpenBracket | tkCloseBracket

text \<open>
  Modelled from the spec: the declarations of \<^verbatim>\<open>Position\<close> and \<^verbatim>\<open>Token\<close> are missing.
  A position records file name, line, column and byte offset; a token carries its kind,
  its text and its start and end positions.
\<close>

record Position =
  file_name :: string
  line :: nat
  column :: nat
  byte_offset :: nat

record Token =
  kind :: TokenType
  tvalue :: string
  start :: Position
  stop :: Position

text \<open>
  The texts of the parse errors. \<^verbatim>\<open>expect\<close> and \<^verbatim>\<open>expectOneOf\<close> format the expected
  token kinds into the message; the formatting of a kind is not in the source, so the
  message keeps the kinds themselves.
\<close>

datatype Msg =
    Expected TokenType
  | ExpectedValue TokenType string
  | ExpectedOneOf "TokenType list"
  | Message string

text \<open>
  Go's \<^verbatim>\<open>error\<close> values that occur here: \<^verbatim>\<open>*ParseError{tok, msg}\<close> built by
  \<^verbatim>\<open>NewParseError\<close>, and the lexer's \<^verbatim>\<open>*LexError\<close>, which \<^verbatim>\<open>Parse\<close> recognises
  by its dynamic type.
\<close>

datatype error =
    ParseError Token Msg
  | LexError Token string

text \<open>A panic carries either an error value (\<^verbatim>\<open>panic(err)\<close>) or a Go runtime error
  (index out of range, nil dereference).\<close>

datatype panicval = PanicErr error | RuntimeError

text \<open>
  Modelled from the spec: \<^verbatim>\<open>Lexer\<close>, \<^verbatim>\<open>NewLexer\<close> and \<^verbatim>\<open>Lexer.NextToken\<close> are
  missing. The lexer is represented by its name and the results its successive
  \<^verbatim>\<open>NextToken\<close> calls will give: a token, or an error token together with a lex error,
  after which scanning resumes. At the end of the input it returns a token of kind
  \<^verbatim>\<open>Eof\<close> repeatedly.
\<close>

datatype LexResult = LexTok Token | LexErr Token string

record Lexer =
  name :: string
  pending :: "LexResult list"
  eofTok :: Token

definition NextToken :: "Lexer \<Rightarrow> LexResult \<times> Lexer" where
  "NextToken lx =
     (case pending lx of
        [] \<Rightarrow> (LexTok ((eofTok lx)\<lparr>kind := tkEof\<rparr>), lx)
      | r # rs \<Rightarrow> (r, lx\<lparr>pending := rs\<rparr>))"

section \<open>The syntax tree\<close>

text \<open>
  The node types of the syntax tree, each with its fields in the order and with the types
  in which \<^verbatim>\<open>parser.go\<close> fills them in (the declarations under \<^verbatim>\<open>src/unnamed\<close> are
  those of an earlier revision: the same types, with some fields still strings). A nil
  slice and an empty slice are both the empty list, except for
  \<^verbatim>\<open>SwitchNode.DefaultCase\<close>, which the parser compares with nil: there \<open>None\<close> is the
  nil slice. \<^verbatim>\<open>IfNode.ElseBody\<close> is a nil interface value when there is no else branch.
  \<^verbatim>\<open>TranslationUnit.Funcs\<close> holds \<^verbatim>\<open>FunctionNode\<close> values.
\<close>

datatype VarDecl = VarDecl string bool int

datatype Node =
    ArrayAccessNode Node Node
  | BinaryNode Node string Node
  | BlockNode "Node list"
  | BreakNode
  | CharacterNode string
  | ExternVarDeclNode "string list"
  | ExternVarInitNode string Node
  | ExternVecInitNode string int "Node list"
  | FunctionNode string "string list" Node
  | FunctionCallNode Node "Node list"
  | GotoNode string
  | IdentNode string
  | IfNode Node Node bool "Node option"
  | IntegerNode int
  | LabelNode string
  | NullNode
  | ParenNode Node
  | ReturnNode Node
  | StatementNode Node
  | StringNode string
  | SwitchNode Node "Node list option" "CaseNode list"
  | TernaryNode Node Node Node
  | UnaryNode string Node bool
  | VarDeclNode "VarDecl list"
  | WhileNode Node Node
and CaseNode = CaseNode Node "Node list"

record TranslationUnit =
  File :: string
  Funcs :: "Node list"
  Vars :: "Node list"

text \<open>\<^verbatim>\<open>IsExpr\<close> and \<^verbatim>\<open>IsStatement\<close>: type switches over the dynamic type of a node.\<close>

fun IsExpr :: "Node \<Rightarrow> bool" where
  "IsExpr (ArrayAccessNode _ _) = True"
| "IsExpr (BinaryNode _ _ _) = True"
| "IsExpr (IdentNode _) = True"
| "IsExpr (IntegerNode _) = True"
| "IsExpr (CharacterNode _) = True"
| "IsExpr (FunctionCallNode _ _) = True"
| "IsExpr (ParenNode _) = True"
| "IsExpr (TernaryNode _ _ _) = True"
| "IsExpr (UnaryNode _ _ _) = True"
| "IsExpr _ = False"

fun isStatementType :: "Node \<Rightarrow> bool" where
  "isStatementType (BlockNode _) = True"
| "isStatementType BreakNode = True"
| "isStatementType (ExternVarDeclNode _) = True"
| "isStatementType (ExternVarInitNode _ _) = True"
| "isStatementType (ExternVecInitNode _ _ _) = True"
| "isStatementType (FunctionNode _ _ _) = True"
| "isStatementType (GotoNode _) = True"
| "isStatementType (IfNode _ _ _ _) = True"
| "isStatementType (LabelNode _) = True"
| "isStatementType (ReturnNode _) = True"
| "isStatementType (StatementNode _) = True"
| "isStatementType (SwitchNode _ _ _) = True"
| "isStatementType (VarDeclNode _) = True"
| "isStatementType (WhileNode _ _) = True"
| "isStatementType _ = False"

definition IsStatement :: "Node \<Rightarrow> bool" where
  "IsStatement n = (if IsExpr n then False else isStatementType n)"

section \<open>Parser state and results\<close>

record Parser =
  lex :: Lexer
  tokens :: "Token list"
  tokIdx :: int

text \<open>
  A parser method either returns a value, returns an error, or panics; in every returning
  case the parser state it leaves behind is part of the result. \<open>OutOfFuel\<close> is the
  result of a loop or recursion that was cut off.
\<close>

datatype 'a res =
    Ok 'a Parser
  | Err error Parser
  | Panic panicval
  | OutOfFuel

fun bind :: "'a res \<Rightarrow> ('a \<Rightarrow> Parser \<Rightarrow> 'b res) \<Rightarrow> 'b res" where
  "bind (Ok x p) f = f x p"
| "bind (Err e p) f = Err e p"
| "bind (Panic v) f = Panic v"
| "bind OutOfFuel f = OutOfFuel"

text \<open>\<^verbatim>\<open>p.tokens[idx]\<close>: \<open>None\<close> is the index-out-of-range panic.\<close>

definition tokenAt :: "Parser \<Rightarrow> int \<Rightarrow> Token option" where
  "tokenAt p idx =
     (if 0 \<le> idx \<and> idx < int (length (tokens p)) then Some (tokens p ! nat idx) else None)"

definition token :: "Parser \<Rightarrow> Token option" where
  "token p = tokenAt p (tokIdx p)"

text \<open>\<^verbatim>\<open>NewParseError(p.token(), msg)\<close>, returned as the error of the method.\<close>

definition tokenErr :: "Parser \<Rightarrow> Msg \<Rightarrow> 'a res" where
  "tokenErr p m =
     (case token p of None \<Rightarrow> Panic RuntimeError | Some cur \<Rightarrow> Err (ParseError cur m) p)"

definition nextToken :: "Parser \<Rightarrow> Token res" where
  "nextToken p =
     (let p1 = p\<lparr>tokIdx := tokIdx p + 1\<rparr> in
      if tokIdx p1 < int (length (tokens p1)) then
        (case tokenAt p1 (tokIdx p1) of
           None \<Rightarrow> Panic RuntimeError
         | Some t \<Rightarrow> Ok t p1)
      else
        (case NextToken (lex p1) of
           (LexErr t m, lx) \<Rightarrow> Err (LexError t m) (p1\<lparr>lex := lx\<rparr>)
         | (LexTok t, lx) \<Rightarrow> Ok t (p1\<lparr>lex := lx, tokens := tokens p1 @ [t]\<rparr>)))"

text \<open>\<^verbatim>\<open>p.nextToken()\<close> as a statement: both results are dropped.\<close>

definition skipToken :: "Parser \<Rightarrow> unit res" where
  "skipToken p =
     (case nextToken p of
        Ok _ p1 \<Rightarrow> Ok () p1
      | Err _ p1 \<Rightarrow> Ok () p1
      | Panic v \<Rightarrow> Panic v
      | OutOfFuel \<Rightarrow> OutOfFuel)"

definition NewParser :: "Lexer \<Rightarrow> unit res" where
  "NewParser lx =
     (case nextToken \<lparr>lex = lx, tokens = [], tokIdx = - 1\<rparr> of
        Ok _ p \<Rightarrow> Ok () p
      | Err e _ \<Rightarrow> Panic (PanicErr e)
      | Panic v \<Rightarrow> Panic v
      | OutOfFuel \<Rightarrow> OutOfFuel)"

definition accept :: "TokenType \<Rightarrow> string \<Rightarrow> Parser \<Rightarrow> Token option res" where
  "accept t str p =
     (case token p of
        None \<Rightarrow> Panic RuntimeError
      | Some cur \<Rightarrow>
          if kind cur = t \<and> (str = [] \<or> str = tvalue cur) then
            (case nextToken p of
               Ok _ p1 \<Rightarrow> Ok (Some cur) p1
             | Err e _ \<Rightarrow> Panic (PanicErr e)
             | Panic v \<Rightarrow> Panic v
             | OutOfFuel \<Rightarrow> OutOfFuel)
          else Ok None p)"

definition acceptType :: "TokenType \<Rightarrow> Parser \<Rightarrow> Token option res" where
  "acceptType t p = accept t [] p"

definition expect :: "TokenType \<Rightarrow> string \<Rightarrow> Parser \<Rightarrow> Token res" where
  "expect t str p =
     bind (accept t str p) (\<lambda>r p1.
       case r of
         None \<Rightarrow> tokenErr p1 (if str = [] then Expected t else ExpectedValue t str)
       | Some tk \<Rightarrow> Ok tk p1)"

definition expectType :: "TokenType \<Rightarrow> Parser \<Rightarrow> Token res" where
  "expectType t p = expect t [] p"

definition expectOneOf :: "TokenType list \<Rightarrow> Parser \<Rightarrow> (TokenType \<times> Token) res" where
  "expectOneOf ts p =
     (case token p of
        None \<Rightarrow> Panic RuntimeError
      | Some cur \<Rightarrow>
          if kind cur \<in> set ts then bind (skipToken p) (\<lambda>_ p1. Ok (kind cur, cur) p1)
          else Err (ParseError cur (ExpectedOneOf ts)) p)"

section \<open>Constants and expressions\<close>

text \<open>
  \<^verbatim>\<open>strconv.Atoi\<close>: an optional sign followed by at least one decimal digit, with the
  value in the range of a 64-bit \<^verbatim>\<open>int\<close>; \<open>None\<close> is its error.
\<close>

definition isDigit :: "char \<Rightarrow> bool" where
  "isDigit c = (48 \<le> (of_char c :: int) \<and> (of_char c :: int) \<le> 57)"

definition digitsValue :: "string \<Rightarrow> int" where
  "digitsValue ds = foldl (\<lambda>a c. 10 * a + (of_char c - 48)) 0 ds"

definition Atoi :: "string \<Rightarrow> int option" where
  "Atoi s =
     (let neg = (s \<noteq> [] \<and> hd s = CHR ''-'');
          ds = (if s \<noteq> [] \<and> (hd s = CHR ''-'' \<or> hd s = CHR ''+'') then tl s else s);
          v = (if neg then - digitsValue ds else digitsValue ds)
      in if ds = [] \<or> \<not> list_all isDigit ds then None
         else if - (2 ^ 63) \<le> v \<and> v < 2 ^ 63 then Some v
         else None)"

text \<open>
  \<^verbatim>\<open>parseConstant\<close>. The \<^verbatim>\<open>default\<close> branch of its switch returns a nil node and a nil
  error, which every caller dereferences; \<^verbatim>\<open>expectOneOf\<close> returns one of the three kinds
  asked for, so the branch is never taken.
\<close>

definition parseConstant :: "Parser \<Rightarrow> Node res" where
  "parseConstant p =
     bind (expectOneOf [tkNumber, tkCharacter, tkString] p) (\<lambda>(k, tk) p1.
       if k = tkNumber then
         (case Atoi (tvalue tk) of
            None \<Rightarrow> tokenErr p1 (Message ''invalid integer literal'')
          | Some num \<Rightarrow> Ok (IntegerNode num) p1)
       else if k = tkCharacter then Ok (CharacterNode (tvalue tk)) p1
       else if k = tkString then Ok (StringNode (tvalue tk)) p1
       else Panic RuntimeError)"

definition parseIdent :: "Parser \<Rightarrow> Node res" where
  "parseIdent p = bind (expectType tkIdent p) (\<lambda>tk p1. Ok (IdentNode (tvalue tk)) p1)"

text \<open>
  The methods for expressions call each other recursively. Each one takes the recursive
  \<^verbatim>\<open>parseExpression\<close> it calls as the argument \<open>pe\<close>, and the fuel \<open>n\<close> for its
  own loops; \<open>parseExpression\<close> below closes the recursion.
\<close>

definition parseParen :: "(Parser \<Rightarrow> Node res) \<Rightarrow> Parser \<Rightarrow> Node res" where
  "parseParen pe p =
     bind (expectType tkOpenParen p) (\<lambda>_ p1.
     bind (pe p1) (\<lambda>inner p2.
     bind (expectType tkCloseParen p2) (\<lambda>_ p3.
       Ok (ParenNode inner) p3)))"

text \<open>The argument loop of a function call: expressions separated by commas.\<close>

fun argsLoop :: "nat \<Rightarrow> (Parser \<Rightarrow> Node res) \<Rightarrow> Node list \<Rightarrow> Parser \<Rightarrow> Node list res" where
  "argsLoop 0 pe args p = OutOfFuel"
| "argsLoop (Suc n) pe args p =
     bind (pe p) (\<lambda>arg p1.
     bind (acceptType tkComma p1) (\<lambda>c p2.
       case c of
         None \<Rightarrow> Ok (args @ [arg]) p2
       | Some _ \<Rightarrow> argsLoop n pe (args @ [arg]) p2))"

text \<open>
  The chain \<^verbatim>\<open>if ... err == nil {} else if ...\<close> at the head of \<^verbatim>\<open>parsePrimary\<close>: the
  next alternative starts from the state the failed one left.
\<close>

fun orElse :: "'a res \<Rightarrow> (Parser \<Rightarrow> 'a res) \<Rightarrow> 'a res" where
  "orElse (Err e p) k = k p"
| "orElse r k = r"

definition parsePrimary :: "nat \<Rightarrow> (Parser \<Rightarrow> Node res) \<Rightarrow> Parser \<Rightarrow> Node res" where
  "parsePrimary n pe p =
     bind (orElse (parseParen pe p) (\<lambda>p1.
           orElse (parseConstant p1) (\<lambda>p2.
           orElse (parseIdent p2) (\<lambda>p3.
             tokenErr p3 (Message ''expected primary expression'')))))
       (\<lambda>node p4.
     bind (acceptType tkOpenBracket p4) (\<lambda>ob p5.
       case ob of
         Some _ \<Rightarrow>
           bind (pe p5) (\<lambda>index p6.
           bind (expectType tkCloseBracket p6) (\<lambda>_ p7.
             Ok (ArrayAccessNode node index) p7))
       | None \<Rightarrow>
           bind (acceptType tkOpenParen p5) (\<lambda>op p6.
             case op of
               Some _ \<Rightarrow>
                 bind (case token p6 of
                         None \<Rightarrow> Panic RuntimeError
                       | Some cur \<Rightarrow>
                           if kind cur \<noteq> tkCloseParen then argsLoop n pe [] p6
                           else Ok [] p6) (\<lambda>args p7.
                 bind (expectType tkCloseParen p7) (\<lambda>_ p8.
                   Ok (FunctionCallNode node args) p8))
             | None \<Rightarrow> Ok node p6)))"

definition unaryOps :: "string list" where
  "unaryOps = [''*'', ''&'', ''-'', ''!'', ''++'', ''--'', ''~'']"

text \<open>\<^verbatim>\<open>parseSubExpression\<close>; \<open>oper\<close> is \<^verbatim>\<open>unNode.Oper\<close>, empty without a prefix operator.\<close>

definition parseSubExpression :: "nat \<Rightarrow> (Parser \<Rightarrow> Node res) \<Rightarrow> Parser \<Rightarrow> Node res" where
  "parseSubExpression n pe p =
     bind (acceptType tkOperator p) (\<lambda>pre p1.
     bind (case pre of
             None \<Rightarrow> Ok [] p1
           | Some tk \<Rightarrow>
               if tvalue tk \<in> set unaryOps then Ok (tvalue tk) p1
               else tokenErr p1 (Message ''invalid unary op'')) (\<lambda>oper p2.
     bind (parsePrimary n pe p2) (\<lambda>expr p3.
       let expr1 = (if oper \<noteq> [] then UnaryNode oper expr False else expr) in
       case token p3 of
         None \<Rightarrow> Panic RuntimeError
       | Some cur \<Rightarrow>
           if kind cur = tkOperator \<and> (tvalue cur = ''++'' \<or> tvalue cur = ''--'') then
             bind (skipToken p3) (\<lambda>_ p4. Ok (UnaryNode (tvalue cur) expr1 True) p4)
           else Ok expr1 p3)))"

text \<open>
  The precedence resolution of \<^verbatim>\<open>parseExpression\<close> for \<^verbatim>\<open>node tok rhs\<close>. The table
  \<^verbatim>\<open>OperatorPrecedence\<close> is not in the source tree: it is the parameter \<open>prec\<close>.
\<close>

definition resolve :: "(string \<Rightarrow> int) \<Rightarrow> Node \<Rightarrow> string \<Rightarrow> Node \<Rightarrow> Node" where
  "resolve prec node oper rhs =
     (case rhs of
        BinaryNode rl roper rr \<Rightarrow>
          if prec oper > prec roper then BinaryNode (BinaryNode node oper rl) roper rr
          else BinaryNode node oper rhs
      | _ \<Rightarrow> BinaryNode node oper rhs)"

definition parseExpressionBody ::
    "(string \<Rightarrow> int) \<Rightarrow> nat \<Rightarrow> (Parser \<Rightarrow> Node res) \<Rightarrow> Parser \<Rightarrow> Node res" where
  "parseExpressionBody prec n pe p =
     bind (parseSubExpression n pe p) (\<lambda>node p1.
     bind (acceptType tkOperator p1) (\<lambda>ot p2.
     bind (case ot of
             None \<Rightarrow> Ok node p2
           | Some tk \<Rightarrow> bind (pe p2) (\<lambda>rhs p3. Ok (resolve prec node (tvalue tk) rhs) p3))
       (\<lambda>node1 p4.
     bind (acceptType tkTernary p4) (\<lambda>tt p5.
       case tt of
         None \<Rightarrow> Ok node1 p5
       | Some _ \<Rightarrow>
           bind (pe p5) (\<lambda>trueBody p6.
           bind (expectType tkColon p6) (\<lambda>_ p7.
           bind (pe p7) (\<lambda>falseBody p8.
             Ok (TernaryNode node1 trueBody falseBody) p8)))))))"

primrec parseExpression :: "(string \<Rightarrow> int) \<Rightarrow> nat \<Rightarrow> Parser \<Rightarrow> Node res" where
  "parseExpression prec 0 = (\<lambda>p. OutOfFuel)"
| "parseExpression prec (Suc n) = parseExpressionBody prec n (parseExpression prec n)"

section \<open>Declarations and statements\<close>

text \<open>\<^verbatim>\<open>parseVariableList\<close>: zero or more comma separated identifiers.\<close>

fun variableListLoop :: "nat \<Rightarrow> string list \<Rightarrow> Token \<Rightarrow> Parser \<Rightarrow> string list res" where
  "variableListLoop 0 vars ident p = OutOfFuel"
| "variableListLoop (Suc n) vars ident p =
     bind (acceptType tkComma p) (\<lambda>c p1.
       case c of
         None \<Rightarrow> Ok (vars @ [tvalue ident]) p1
       | Some _ \<Rightarrow>
           bind (expectType tkIdent p1) (\<lambda>ident2 p2.
             variableListLoop n (vars @ [tvalue ident]) ident2 p2))"

definition parseVariableList :: "nat \<Rightarrow> Parser \<Rightarrow> string list res" where
  "parseVariableList n p =
     bind (acceptType tkIdent p) (\<lambda>r p1.
       case r of
         None \<Rightarrow> Ok [] p1
       | Some ident \<Rightarrow> variableListLoop n [] ident p1)"

definition parseExternVarDecl :: "nat \<Rightarrow> Parser \<Rightarrow> Node res" where
  "parseExternVarDecl n p =
     bind (expect tkKeyword ''extrn'' p) (\<lambda>_ p1.
     bind (parseVariableList n p1) (\<lambda>names p2.
     bind (expectType tkSemicolon p2) (\<lambda>_ p3.
       if length names \<le> 0 then
         tokenErr p3 (Message ''expected at least 1 variable in extrn declaration'')
       else Ok (ExternVarDeclNode names) p3)))"

text \<open>The value loop of a vector initializer: constants separated by commas.\<close>

fun vecValuesLoop :: "nat \<Rightarrow> Node list \<Rightarrow> Parser \<Rightarrow> Node list res" where
  "vecValuesLoop 0 vals p = OutOfFuel"
| "vecValuesLoop (Suc n) vals p =
     bind (parseConstant p) (\<lambda>constant p1.
     bind (acceptType tkComma p1) (\<lambda>c p2.
       case c of
         None \<Rightarrow> Ok (vals @ [constant]) p2
       | Some _ \<Rightarrow> vecValuesLoop n (vals @ [constant]) p2))"

definition parseExternalVariableInit :: "nat \<Rightarrow> Parser \<Rightarrow> Node res" where
  "parseExternalVariableInit n p =
     bind (expectType tkIdent p) (\<lambda>ident p1.
     bind (acceptType tkOpenBracket p1) (\<lambda>ob p2.
       case ob of
         Some _ \<Rightarrow>
           bind (expectType tkNumber p2) (\<lambda>num p3.
           bind (expectType tkCloseBracket p3) (\<lambda>_ p4.
             case Atoi (tvalue num) of
               None \<Rightarrow> tokenErr p4 (Message ''Bad integer literal'')
             | Some sz \<Rightarrow>
                 bind (vecValuesLoop n [] p4) (\<lambda>vals p5.
                 bind (expectType tkSemicolon p5) (\<lambda>_ p6.
                   Ok (ExternVecInitNode (tvalue ident) sz vals) p6))))
       | None \<Rightarrow>
           (case parseConstant p2 of
              Err _ p3 \<Rightarrow>
                bind (expectType tkSemicolon p3) (\<lambda>_ p4.
                  Ok (ExternVarInitNode (tvalue ident) (IntegerNode 0)) p4)
            | Ok constant p3 \<Rightarrow>
                bind (expectType tkSemicolon p3) (\<lambda>_ p4.
                  Ok (ExternVarInitNode (tvalue ident) constant) p4)
            | Panic v \<Rightarrow> Panic v
            | OutOfFuel \<Rightarrow> OutOfFuel)))"

text \<open>
  From here on \<open>ps\<close> is the recursive \<^verbatim>\<open>parseStatement\<close> and \<open>pe\<close> is
  \<^verbatim>\<open>parseExpression\<close>.
\<close>

definition parseFuncDeclaration :: "nat \<Rightarrow> (Parser \<Rightarrow> Node res) \<Rightarrow> Parser \<Rightarrow> Node res" where
  "parseFuncDeclaration n ps p =
     bind (expectType tkIdent p) (\<lambda>ident p1.
     bind (expectType tkOpenParen p1) (\<lambda>_ p2.
     bind (parseVariableList n p2) (\<lambda>params p3.
     bind (expectType tkCloseParen p3) (\<lambda>_ p4.
     bind (ps p4) (\<lambda>stmt p5.
       Ok (FunctionNode (tvalue ident) params stmt) p5)))))"

definition parseIf ::
    "(Parser \<Rightarrow> Node res) \<Rightarrow> (Parser \<Rightarrow> Node res) \<Rightarrow> Parser \<Rightarrow> Node res" where
  "parseIf pe ps p =
     bind (expect tkKeyword ''if'' p) (\<lambda>_ p1.
     bind (expectType tkOpenParen p1) (\<lambda>_ p2.
     bind (pe p2) (\<lambda>cond p3.
     bind (expectType tkCloseParen p3) (\<lambda>_ p4.
     bind (ps p4) (\<lambda>trueBody p5.
     bind (accept tkKeyword ''else'' p5) (\<lambda>el p6.
       case el of
         Some _ \<Rightarrow> bind (ps p6) (\<lambda>els p7. Ok (IfNode cond trueBody True (Some els)) p7)
       | None \<Rightarrow> Ok (IfNode cond trueBody False None) p6))))))"

definition parseWhile ::
    "(Parser \<Rightarrow> Node res) \<Rightarrow> (Parser \<Rightarrow> Node res) \<Rightarrow> Parser \<Rightarrow> Node res" where
  "parseWhile pe ps p =
     bind (expect tkKeyword ''while'' p) (\<lambda>_ p1.
     bind (expectType tkOpenParen p1) (\<lambda>_ p2.
     bind (pe p2) (\<lambda>cond p3.
     bind (expectType tkCloseParen p3) (\<lambda>_ p4.
     bind (ps p4) (\<lambda>body p5.
       Ok (WhileNode cond body) p5)))))"

text \<open>The statement loop of a block, up to the closing brace.\<close>

fun blockLoop :: "nat \<Rightarrow> (Parser \<Rightarrow> Node res) \<Rightarrow> Node list \<Rightarrow> Parser \<Rightarrow> Node list res" where
  "blockLoop 0 ps nodes p = OutOfFuel"
| "blockLoop (Suc n) ps nodes p =
     (case token p of
        None \<Rightarrow> Panic RuntimeError
      | Some cur \<Rightarrow>
          if kind cur \<noteq> tkCloseBrace then
            bind (ps p) (\<lambda>stmt p1. blockLoop n ps (nodes @ [stmt]) p1)
          else Ok nodes p)"

definition parseBlock :: "nat \<Rightarrow> (Parser \<Rightarrow> Node res) \<Rightarrow> Parser \<Rightarrow> Node res" where
  "parseBlock n ps p =
     bind (expectType tkOpenBrace p) (\<lambda>_ p1.
     bind (blockLoop n ps [] p1) (\<lambda>nodes p2.
     bind (expectType tkCloseBrace p2) (\<lambda>_ p3.
       Ok (BlockNode nodes) p3)))"

text \<open>The loop of \<^verbatim>\<open>parseVarDecl\<close> over the declared names.\<close>

fun varDeclLoop :: "nat \<Rightarrow> VarDecl list \<Rightarrow> Parser \<Rightarrow> VarDecl list res" where
  "varDeclLoop 0 vars p = OutOfFuel"
| "varDeclLoop (Suc n) vars p =
     bind (expectType tkIdent p) (\<lambda>ident p1.
     bind (acceptType tkOpenBracket p1) (\<lambda>ob p2.
     bind (case ob of
             Some _ \<Rightarrow>
               bind (expectType tkNumber p2) (\<lambda>num p3.
                 case Atoi (tvalue num) of
                   None \<Rightarrow> tokenErr p3 (Message ''invalid integer literal'')
                 | Some sz \<Rightarrow>
                     bind (expectType tkCloseBracket p3) (\<lambda>_ p4.
                       Ok (vars @ [VarDecl (tvalue ident) True sz]) p4))
           | None \<Rightarrow> Ok (vars @ [VarDecl (tvalue ident) False 0]) p2) (\<lambda>vars1 p5.
     bind (acceptType tkComma p5) (\<lambda>c p6.
       case c of
         None \<Rightarrow> Ok vars1 p6
       | Some _ \<Rightarrow> varDeclLoop n vars1 p6))))"

definition parseVarDecl :: "nat \<Rightarrow> Parser \<Rightarrow> Node res" where
  "parseVarDecl n p =
     bind (expect tkKeyword ''auto'' p) (\<lambda>_ p1.
     bind (varDeclLoop n [] p1) (\<lambda>vars p2.
     bind (expectType tkSemicolon p2) (\<lambda>_ p3.
       if length vars \<le> 0 then
         tokenErr p3 (Message ''expected at least 1 variable in auto declaration'')
       else Ok (VarDeclNode vars) p3)))"

text \<open>
  The two inner loops of \<^verbatim>\<open>parseSwitch\<close> have the same text: they stop before
  \<^verbatim>\<open>case\<close>, \<^verbatim>\<open>default\<close> or a closing brace (accepted, then stepped back by one
  token) and otherwise append a statement to a slice. \<open>None\<close> is the nil slice.
\<close>

definition appendSlice :: "'a list option \<Rightarrow> 'a \<Rightarrow> 'a list option" where
  "appendSlice sl x = (case sl of None \<Rightarrow> Some [x] | Some xs \<Rightarrow> Some (xs @ [x]))"

definition stepBack :: "Parser \<Rightarrow> Parser" where
  "stepBack p = p\<lparr>tokIdx := tokIdx p - 1\<rparr>"

fun caseBodyLoop ::
    "nat \<Rightarrow> (Parser \<Rightarrow> Node res) \<Rightarrow> Node list option \<Rightarrow> Parser \<Rightarrow> Node list option res" where
  "caseBodyLoop 0 ps stmts p = OutOfFuel"
| "caseBodyLoop (Suc n) ps stmts p =
     bind (accept tkKeyword ''case'' p) (\<lambda>a p1.
       case a of
         Some _ \<Rightarrow> Ok stmts (stepBack p1)
       | None \<Rightarrow>
     bind (accept tkKeyword ''default'' p1) (\<lambda>b p2.
       case b of
         Some _ \<Rightarrow> Ok stmts (stepBack p2)
       | None \<Rightarrow>
     bind (acceptType tkCloseBrace p2) (\<lambda>c p3.
       case c of
         Some _ \<Rightarrow> Ok stmts (stepBack p3)
       | None \<Rightarrow>
     bind (ps p3) (\<lambda>stmt p4.
       caseBodyLoop n ps (appendSlice stmts stmt) p4))))"

definition sliceList :: "'a list option \<Rightarrow> 'a list" where
  "sliceList sl = (case sl of None \<Rightarrow> [] | Some xs \<Rightarrow> xs)"

text \<open>
  The outer loop of \<^verbatim>\<open>parseSwitch\<close>; \<open>dflt\<close> is \<^verbatim>\<open>switchNode.DefaultCase\<close> and
  \<open>cases\<close> is \<^verbatim>\<open>switchNode.Cases\<close>.
\<close>

fun switchLoop ::
    "nat \<Rightarrow> (Parser \<Rightarrow> Node res) \<Rightarrow> Node \<Rightarrow> Node list option \<Rightarrow> CaseNode list \<Rightarrow> Parser
      \<Rightarrow> Node res" where
  "switchLoop 0 ps cond dflt cases p = OutOfFuel"
| "switchLoop (Suc n) ps cond dflt cases p =
     bind (acceptType tkCloseBrace p) (\<lambda>cb p1.
       case cb of
         Some _ \<Rightarrow> Ok (SwitchNode cond dflt cases) p1
       | None \<Rightarrow>
     bind (accept tkKeyword ''case'' p1) (\<lambda>a p2.
       case a of
         Some _ \<Rightarrow>
           bind (parseConstant p2) (\<lambda>c p3.
           bind (expectType tkColon p3) (\<lambda>_ p4.
           bind (caseBodyLoop n ps None p4) (\<lambda>stmts p5.
             switchLoop n ps cond dflt (cases @ [CaseNode c (sliceList stmts)]) p5)))
       | None \<Rightarrow>
     bind (accept tkKeyword ''default'' p2) (\<lambda>b p3.
       case b of
         Some _ \<Rightarrow>
           bind (expectType tkColon p3) (\<lambda>_ p4.
             if dflt \<noteq> None then tokenErr p4 (Message ''Multiple 'default' cases'')
             else
               bind (caseBodyLoop n ps dflt p4) (\<lambda>dflt1 p5.
                 switchLoop n ps cond dflt1 cases p5))
       | None \<Rightarrow> tokenErr p3 (Message (''expected 'case' or 'default'' @ [CHR 0x27])))))"

definition parseSwitch ::
    "nat \<Rightarrow> (Parser \<Rightarrow> Node res) \<Rightarrow> (Parser \<Rightarrow> Node res) \<Rightarrow> Parser \<Rightarrow> Node res" where
  "parseSwitch n pe ps p =
     bind (expect tkKeyword ''switch'' p) (\<lambda>_ p1.
     bind (expectType tkOpenParen p1) (\<lambda>_ p2.
     bind (pe p2) (\<lambda>cond p3.
     bind (expectType tkCloseParen p3) (\<lambda>_ p4.
     bind (expectType tkOpenBrace p4) (\<lambda>_ p5.
       switchLoop n ps cond None [] p5)))))"

text \<open>
  One alternative of \<^verbatim>\<open>parseStatement\<close>:
  \<^verbatim>\<open>if node, err := alt(); err != nil && p.tokIdx != pos { return nil, err } else if err == nil { return node, nil }\<close>,
  and otherwise the rest \<open>k\<close> of the method, from the state the alternative left.
\<close>

fun attempt :: "int \<Rightarrow> Node res \<Rightarrow> (Parser \<Rightarrow> Node res) \<Rightarrow> Node res" where
  "attempt pos (Ok node p1) k = Ok node p1"
| "attempt pos (Err e p1) k = (if tokIdx p1 \<noteq> pos then Err e p1 else k p1)"
| "attempt pos (Panic v) k = Panic v"
| "attempt pos OutOfFuel k = OutOfFuel"

text \<open>The last alternative of \<^verbatim>\<open>parseStatement\<close>: an expression followed by a semicolon.\<close>

definition exprStatement :: "int \<Rightarrow> (Parser \<Rightarrow> Node res) \<Rightarrow> Parser \<Rightarrow> Node res" where
  "exprStatement pos pe p =
     (case pe p of
        Ok node p1 \<Rightarrow> bind (expectType tkSemicolon p1) (\<lambda>_ p2. Ok (StatementNode node) p2)
      | Err e p1 \<Rightarrow>
          if tokIdx p1 \<noteq> pos then Err e p1
          else (case tokenAt p1 pos of
                  None \<Rightarrow> Panic RuntimeError
                | Some t \<Rightarrow> Err (ParseError t (Message ''expected statement'')) p1)
      | Panic v \<Rightarrow> Panic v
      | OutOfFuel \<Rightarrow> OutOfFuel)"

definition parseStatementBody ::
    "nat \<Rightarrow> (Parser \<Rightarrow> Node res) \<Rightarrow> (Parser \<Rightarrow> Node res) \<Rightarrow> Parser \<Rightarrow> Node res" where
  "parseStatementBody n pe ps p =
     (let pos = tokIdx p in
      attempt pos (parseIf pe ps p) (\<lambda>q1.
      attempt pos (parseBlock n ps q1) (\<lambda>q2.
      attempt pos (parseVarDecl n q2) (\<lambda>q3.
      attempt pos (parseExternVarDecl n q3) (\<lambda>q4.
      attempt pos (parseWhile pe ps q4) (\<lambda>q5.
      attempt pos (parseSwitch n pe ps q5) (\<lambda>q6.
      bind (acceptType tkSemicolon q6) (\<lambda>a p1.
        case a of
          Some _ \<Rightarrow> Ok NullNode p1
        | None \<Rightarrow>
      bind (accept tkKeyword ''break'' p1) (\<lambda>b p2.
        case b of
          Some _ \<Rightarrow> bind (expectType tkSemicolon p2) (\<lambda>_ p3. Ok BreakNode p3)
        | None \<Rightarrow>
      bind (accept tkKeyword ''return'' p2) (\<lambda>r p3.
        case r of
          Some _ \<Rightarrow>
            bind (acceptType tkSemicolon p3) (\<lambda>s p4.
              case s of
                Some _ \<Rightarrow> Ok (ReturnNode NullNode) p4
              | None \<Rightarrow>
                  bind (pe p4) (\<lambda>node p5.
                  bind (expectType tkSemicolon p5) (\<lambda>_ p6.
                    Ok (ReturnNode node) p6)))
        | None \<Rightarrow>
      bind (accept tkKeyword ''goto'' p3) (\<lambda>g p4.
        case g of
          Some _ \<Rightarrow>
            bind (expectType tkIdent p4) (\<lambda>tk p5.
            bind (expectType tkSemicolon p5) (\<lambda>_ p6.
              Ok (GotoNode (tvalue tk)) p6))
        | None \<Rightarrow>
      bind (acceptType tkIdent p4) (\<lambda>i p5.
        case i of
          Some tk \<Rightarrow>
            bind (acceptType tkColon p5) (\<lambda>c p6.
              case c of
                Some _ \<Rightarrow> Ok (LabelNode (tvalue tk)) p6
              | None \<Rightarrow>
                  bind (acceptType tkSemicolon p6) (\<lambda>s p7.
                    case s of
                      Some _ \<Rightarrow> Ok (StatementNode (IdentNode (tvalue tk))) p7
                    | None \<Rightarrow> exprStatement pos pe (p7\<lparr>tokIdx := pos\<rparr>)))
        | None \<Rightarrow> exprStatement pos pe p5))))))))))))"

primrec parseStatement :: "(string \<Rightarrow> int) \<Rightarrow> nat \<Rightarrow> Parser \<Rightarrow> Node res" where
  "parseStatement prec 0 = (\<lambda>p. OutOfFuel)"
| "parseStatement prec (Suc n) =
     parseStatementBody n (parseExpression prec n) (parseStatement prec n)"

section \<open>Top level\<close>

definition parseTopLevel :: "nat \<Rightarrow> (Parser \<Rightarrow> Node res) \<Rightarrow> Parser \<Rightarrow> Node res" where
  "parseTopLevel n ps p =
     (let pos = tokIdx p in
      case parseExternalVariableInit n p of
        Ok node p1 \<Rightarrow> Ok node p1
      | Err e p1 \<Rightarrow>
          if tokIdx p1 = pos + 1 then
            (case parseFuncDeclaration n ps (p1\<lparr>tokIdx := pos\<rparr>) of
               Ok node p2 \<Rightarrow> Ok node p2
             | Err e2 p2 \<Rightarrow>
                 if tokIdx p2 \<noteq> pos then Err e2 p2
                 else tokenErr p2 (Message ''expected top level decl'')
             | Panic v \<Rightarrow> Panic v
             | OutOfFuel \<Rightarrow> OutOfFuel)
          else Err e p1
      | Panic v \<Rightarrow> Panic v
      | OutOfFuel \<Rightarrow> OutOfFuel)"

text \<open>
  What a call of \<^verbatim>\<open>Parse\<close> does: it returns a unit and an error (\<open>None\<close> is nil),
  or a panic leaves it.
\<close>

datatype outcome =
    Returned TranslationUnit "error option"
  | Panicked panicval
  | Diverged

text \<open>The loop of \<^verbatim>\<open>Parse\<close>, without the deferred function. (\<^verbatim>\<open>acceptType\<close> has no error
  result; the branch for it only makes the case distinction complete.)\<close>

fun parseLoop ::
    "nat \<Rightarrow> (Parser \<Rightarrow> Node res) \<Rightarrow> TranslationUnit \<Rightarrow> Parser \<Rightarrow> outcome" where
  "parseLoop 0 ps unit p = Diverged"
| "parseLoop (Suc n) ps unit p =
     (case acceptType tkEof p of
        Ok (Some _) p1 \<Rightarrow> Returned unit None
      | Ok None p1 \<Rightarrow>
          (case parseTopLevel n ps p1 of
             Err e p2 \<Rightarrow> Returned unit (Some e)
           | Ok node p2 \<Rightarrow>
               (case node of
                  FunctionNode _ _ _ \<Rightarrow> parseLoop n ps (unit\<lparr>Funcs := Funcs unit @ [node]\<rparr>) p2
                | ExternVarInitNode _ _ \<Rightarrow> parseLoop n ps (unit\<lparr>Vars := Vars unit @ [node]\<rparr>) p2
                | ExternVecInitNode _ _ _ \<Rightarrow>
                    parseLoop n ps (unit\<lparr>Vars := Vars unit @ [node]\<rparr>) p2
                | _ \<Rightarrow>
                    (case token p2 of
                       None \<Rightarrow> Panicked RuntimeError
                     | Some cur \<Rightarrow>
                         Returned unit
                           (Some (ParseError cur (Message ''That's not a top level decl'')))))
           | Panic v \<Rightarrow> Panicked v
           | OutOfFuel \<Rightarrow> Diverged)
      | Err e p1 \<Rightarrow> Returned unit (Some e)
      | Panic v \<Rightarrow> Panicked v
      | OutOfFuel \<Rightarrow> Diverged)"

text \<open>
  The deferred function of \<^verbatim>\<open>Parse\<close>: a panic whose value is a \<^verbatim>\<open>*LexError\<close> becomes the
  result \<^verbatim>\<open>TranslationUnit{}, lexErr\<close>; any other panic is raised again.
\<close>

definition emptyUnit :: TranslationUnit where
  "emptyUnit = \<lparr>File = [], Funcs = [], Vars = []\<rparr>"

fun recoverLexError :: "outcome \<Rightarrow> outcome" where
  "recoverLexError (Panicked (PanicErr (LexError t m))) = Returned emptyUnit (Some (LexError t m))"
| "recoverLexError r = r"

definition Parse :: "(string \<Rightarrow> int) \<Rightarrow> nat \<Rightarrow> Parser \<Rightarrow> outcome" where
  "Parse prec n p =
     recoverLexError
       (parseLoop n (parseStatement prec n) \<lparr>File = name (lex p), Funcs = [], Vars = []\<rparr> p)"

section \<open>Concrete inputs\<close>

text \<open>
  Modelled from the spec: the table \<^verbatim>\<open>OperatorPrecedence\<close> is missing. The functions
  above take it as a parameter; this instance follows the precedence levels of the
  specification, a larger number binding tighter, and is used for the concrete runs
  below.
\<close>

definition OperatorPrecedence :: "string \<Rightarrow> int" where
  "OperatorPrecedence oper =
     (if oper \<in> {''*'', ''/'', ''%''} then 10
      else if oper \<in> {''+'', ''-''} then 9
      else if oper \<in> {''<<'', ''>>''} then 8
      else if oper \<in> {''<'', ''<='', ''>'', ''>=''} then 7
      else if oper \<in> {''=='', ''!=''} then 6
      else if oper = ''&'' then 5
      else if oper = ''^'' then 4
      else if oper = ''|'' then 3
      else if oper = ''&&'' then 2
      else if oper = ''||'' then 1
      else 0)"

definition origin :: Position where
  "origin = \<lparr>file_name = ''input'', line = 1, column = 1, byte_offset = 0\<rparr>"

definition mkToken :: "TokenType \<Rightarrow> string \<Rightarrow> Token" where
  "mkToken k v = \<lparr>kind = k, tvalue = v, start = origin, stop = origin\<rparr>"

definition lexerOf :: "LexResult list \<Rightarrow> Lexer" where
  "lexerOf rs = \<lparr>name = ''input'', pending = rs, eofTok = mkToken tkEof []\<rparr>"

text \<open>A parser that has buffered \<open>buf\<close>, stands at index \<open>i\<close>, and whose lexer will
  still give \<open>rs\<close>.\<close>

definition stateAt :: "Token list \<Rightarrow> int \<Rightarrow> LexResult list \<Rightarrow> Parser" where
  "stateAt buf i rs = \<lparr>lex = lexerOf rs, tokens = buf, tokIdx = i\<rparr>"

text \<open>The node of a successful result and the index it leaves the parser at.\<close>

definition resultNode :: "'a res \<Rightarrow> 'a option" where
  "resultNode r = (case r of Ok x _ \<Rightarrow> Some x | _ \<Rightarrow> None)"

definition resultIdx :: "'a res \<Rightarrow> int option" where
  "resultIdx r = (case r of Ok _ p \<Rightarrow> Some (tokIdx p) | Err _ p \<Rightarrow> Some (tokIdx p) | _ \<Rightarrow> None)"


text \<open>Tokens as the lexer gives them for the source texts used below.\<close>

abbreviation ident :: "string \<Rightarrow> Token" where "ident v \<equiv> mkToken tkIdent v"
abbreviation number :: "string \<Rightarrow> Token" where "number v \<equiv> mkToken tkNumber v"
abbreviation oper :: "string \<Rightarrow> Token" where "oper v \<equiv> mkToken tkOperator v"
abbreviation keyword :: "string \<Rightarrow> Token" where "keyword v \<equiv> mkToken tkKeyword v"
abbreviation semi :: Token where "semi \<equiv> mkToken tkSemicolon '';''"
abbreviation colon :: Token where "colon \<equiv> mkToken tkColon '':''"
abbreviation oparen :: Token where "oparen \<equiv> mkToken tkOpenParen ''(''"
abbreviation cparen :: Token where "cparen \<equiv> mkToken tkCloseParen '')''"
abbreviation obrace :: Token where "obrace \<equiv> mkToken tkOpenBrace ''{''"
abbreviation cbrace :: Token where "cbrace \<equiv> mkToken tkCloseBrace ''}''"
abbreviation obracket :: Token where "obracket \<equiv> mkToken tkOpenBracket ''[''"
abbreviation cbracket :: Token where "cbracket \<equiv> mkToken tkCloseBracket '']''"

text \<open>The parser as \<^verbatim>\<open>NewParser\<close> leaves it on a token sequence: the first token read
  (\<^verbatim>\<open>Eof\<close> when there is none), the others still with the lexer.\<close>

fun parserOn :: "Token list \<Rightarrow> Parser" where
  "parserOn [] = stateAt [mkToken tkEof []] 0 []"
| "parserOn (t # ts) = stateAt [t] 0 (map LexTok ts)"

text \<open>
  The nodes \<^verbatim>\<open>parsePrimary\<close> builds before it looks for a postfix operator (a
  parenthesised expression, a constant or an identifier), and the nodes that carry at
  most one postfix operator on such a node.
\<close>

fun isPrimaryBase :: "Node \<Rightarrow> bool" where
  "isPrimaryBase (ParenNode _) = True"
| "isPrimaryBase (IntegerNode _) = True"
| "isPrimaryBase (CharacterNode _) = True"
| "isPrimaryBase (StringNode _) = True"
| "isPrimaryBase (IdentNode _) = True"
| "isPrimaryBase _ = False"

fun atMostOnePostfix :: "Node \<Rightarrow> bool" where
  "atMostOnePostfix (ArrayAccessNode array _) = isPrimaryBase array"
| "atMostOnePostfix (FunctionCallNode callable _) = isPrimaryBase callable"
| "atMostOnePostfix node = isPrimaryBase node"

text \<open>The constants a \<^verbatim>\<open>case\<close> label may carry.\<close>

fun isConstant :: "Node \<Rightarrow> bool" where
  "isConstant (IntegerNode _) = True"
| "isConstant (CharacterNode _) = True"
| "isConstant (StringNode _) = True"
| "isConstant _ = False"

fun caseCond :: "CaseNode \<Rightarrow> Node" where
  "caseCond (CaseNode c _) = c"

text \<open>The order on results in which a run that was cut off lies below every result.\<close>

definition le_res :: "'a res \<Rightarrow> 'a res \<Rightarrow> bool" where
  "le_res r r' = (r = OutOfFuel \<or> r = r')"

definition le_outcome :: "outcome \<Rightarrow> outcome \<Rightarrow> bool" where
  "le_outcome r r' = (r = Diverged \<or> r = r')"

section \<open>The primitives \<^verbatim>\<open>accept\<close> and \<^verbatim>\<open>expect\<close>\<close>

lemma tokenErr_not_Ok: "tokenErr p m \<noteq> Ok x q"
  by (simp add: tokenErr_def split: option.splits)

lemma token_stateAt:
  "0 \<le> i \<Longrightarrow> i < int (length buf) \<Longrightarrow> token (stateAt buf i rs) = Some (buf ! nat i)"
  by (simp add: token_def tokenAt_def stateAt_def)

lemma nextToken_buffered:
  "0 \<le> i + 1 \<Longrightarrow> i + 1 < int (length buf) \<Longrightarrow>
   nextToken (stateAt buf i rs) = Ok (buf ! nat (i + 1)) (stateAt buf (i + 1) rs)"
  by (simp add: nextToken_def tokenAt_def stateAt_def Let_def)

lemma nextToken_lexed:
  "i + 1 = int (length buf) \<Longrightarrow>
   nextToken (stateAt buf i (LexTok t # rs)) = Ok t (stateAt (buf @ [t]) (i + 1) rs)"
  by (simp add: nextToken_def NextToken_def stateAt_def lexerOf_def Let_def)

lemma nextToken_eof:
  "i + 1 = int (length buf) \<Longrightarrow>
   nextToken (stateAt buf i []) = Ok (mkToken tkEof []) (stateAt (buf @ [mkToken tkEof []]) (i + 1) [])"
  by (simp add: nextToken_def NextToken_def stateAt_def lexerOf_def Let_def mkToken_def)

lemma nextToken_lexerr:
  "i + 1 = int (length buf) \<Longrightarrow>
   nextToken (stateAt buf i (LexErr t m # rs)) = Err (LexError t m) (stateAt buf (i + 1) rs)"
  by (simp add: nextToken_def NextToken_def stateAt_def lexerOf_def Let_def)

text \<open>
  C8. For every parser state, kind and value, \<^verbatim>\<open>accept\<close> returns a token exactly when
  \<^verbatim>\<open>expect\<close> returns that same token and leaves the parser in the same state; and when
  \<^verbatim>\<open>accept\<close> returns nothing, the parser state (so also the token index) is unchanged.
\<close>

theorem accept_expect_agree:
  "((accept t str p = Ok (Some tk) q) = (expect t str p = Ok tk q)) \<and>
   (accept t str p = Ok None q \<longrightarrow> q = p)"
proof
  show "(accept t str p = Ok (Some tk) q) = (expect t str p = Ok tk q)"
  proof (cases "accept t str p")
    case (Ok r p1)
    then show ?thesis by (cases r) (simp_all add: expect_def tokenErr_not_Ok)
  qed (simp_all add: expect_def)
  show "accept t str p = Ok None q \<longrightarrow> q = p"
    by (auto simp: accept_def split: option.splits if_splits res.splits)
qed

theorem accept_expect_agree_witness:
  "accept tkNumber ''2'' (stateAt [mkToken tkNumber ''1''] 0 [LexTok (mkToken tkIdent ''abc'')])
     = Ok None (stateAt [mkToken tkNumber ''1''] 0 [LexTok (mkToken tkIdent ''abc'')]) \<and>
   accept tkNumber ''1'' (stateAt [mkToken tkNumber ''1''] 0 [LexTok (mkToken tkIdent ''abc'')])
     = Ok (Some (mkToken tkNumber ''1''))
          (stateAt [mkToken tkNumber ''1'', mkToken tkIdent ''abc''] 1 []) \<and>
   expect tkNumber ''1'' (stateAt [mkToken tkNumber ''1''] 0 [LexTok (mkToken tkIdent ''abc'')])
     = Ok (mkToken tkNumber ''1'')
          (stateAt [mkToken tkNumber ''1'', mkToken tkIdent ''abc''] 1 [])"
proof -
  let ?p = "stateAt [mkToken tkNumber ''1''] 0 [LexTok (mkToken tkIdent ''abc'')]"
  let ?q = "stateAt [mkToken tkNumber ''1'', mkToken tkIdent ''abc''] 1 []"
  have miss: "accept tkNumber ''2'' ?p = Ok None ?p"
    by (simp add: accept_def token_stateAt mkToken_def)
  have hit: "accept tkNumber ''1'' ?p = Ok (Some (mkToken tkNumber ''1'')) ?q"
    by (simp add: accept_def token_stateAt nextToken_lexed) (simp add: mkToken_def)
  from accept_expect_agree [of tkNumber "''1''" ?p "mkToken tkNumber ''1''" ?q] hit
  have "expect tkNumber ''1'' ?p = Ok (mkToken tkNumber ''1'') ?q" by simp
  moreover from accept_expect_agree [of tkNumber "''2''" ?p _ ?p] miss have "?p = ?p" by simp
  ultimately show ?thesis using miss hit by simp
qed

section \<open>Classification of nodes\<close>

text \<open>
  C10. \<^verbatim>\<open>IsExpr\<close> and \<^verbatim>\<open>IsStatement\<close> are mutually exclusive: \<^verbatim>\<open>IsStatement\<close> is false
  for every node that \<^verbatim>\<open>IsExpr\<close> classifies as an expression, so at most one of the two
  is true.
\<close>

theorem IsExpr_IsStatement_exclusive: "IsExpr n \<Longrightarrow> \<not> IsStatement n"
  by (simp add: IsStatement_def)

theorem IsExpr_IsStatement_exclusive_witness:
  "IsExpr (IdentNode ''x'') \<and> \<not> IsStatement (IdentNode ''x'')"
  using IsExpr_IsStatement_exclusive [of "IdentNode ''x''"] by simp

section \<open>Running the parser on concrete inputs\<close>

lemma kind_mkToken [simp]: "kind (mkToken k v) = k"
  by (simp add: mkToken_def)

lemma tvalue_mkToken [simp]: "tvalue (mkToken k v) = v"
  by (simp add: mkToken_def)

lemma tokIdx_stateAt [simp]: "tokIdx (stateAt buf i rs) = i"
  by (simp add: stateAt_def)

lemma tokens_stateAt [simp]: "tokens (stateAt buf i rs) = buf"
  by (simp add: stateAt_def)

lemma tokIdx_update_stateAt [simp]: "(stateAt buf i rs)\<lparr>tokIdx := j\<rparr> = stateAt buf j rs"
  by (simp add: stateAt_def)

lemma stepBack_stateAt [simp]: "stepBack (stateAt buf i rs) = stateAt buf (i - 1) rs"
  by (simp add: stateAt_def stepBack_def)

lemma name_lex_stateAt [simp]: "name (lex (stateAt buf i rs)) = ''input''"
  by (simp add: stateAt_def lexerOf_def)

lemma tokenAt_stateAt:
  "0 \<le> j \<Longrightarrow> j < int (length buf) \<Longrightarrow> tokenAt (stateAt buf i rs) j = Some (buf ! nat j)"
  by (simp add: tokenAt_def stateAt_def)

lemma token_stateAt_end: "i = int (length buf) \<Longrightarrow> token (stateAt buf i rs) = None"
  by (simp add: token_def tokenAt_def stateAt_def)

text \<open>
  The recursion equations are used on a parser state only, so that the recursive
  arguments \<open>pe\<close> and \<open>ps\<close> stay folded while a run is evaluated.
\<close>

lemma parseExpression_Suc:
  "parseExpression prec (Suc n) p = parseExpressionBody prec n (parseExpression prec n) p"
  by simp

lemma parseStatement_Suc:
  "parseStatement prec (Suc n) p
     = parseStatementBody n (parseExpression prec n) (parseStatement prec n) p"
  by simp

declare parseExpression.simps(2) [simp del] parseStatement.simps(2) [simp del]
declare parseExpression_Suc [simp] parseStatement_Suc [simp]

lemmas run_simps =
  accept_def acceptType_def expect_def expectType_def expectOneOf_def skipToken_def tokenErr_def
  token_stateAt token_stateAt_end tokenAt_stateAt
  nextToken_buffered nextToken_lexed nextToken_eof nextToken_lexerr
  parseConstant_def parseIdent_def parseParen_def parsePrimary_def parseSubExpression_def
  parseExpressionBody_def resolve_def unaryOps_def Atoi_def isDigit_def digitsValue_def
  parseVariableList_def parseExternVarDecl_def parseExternalVariableInit_def
  parseFuncDeclaration_def parseIf_def parseWhile_def parseBlock_def parseVarDecl_def
  parseSwitch_def exprStatement_def parseStatementBody_def parseTopLevel_def Parse_def
  appendSlice_def sliceList_def resultNode_def emptyUnit_def
  Let_def eval_nat_numeral

lemma NewParser_lexerOf: "NewParser (lexerOf (LexTok t # rs)) = Ok () (stateAt [t] 0 rs)"
  using nextToken_lexed [where i = "- 1" and buf = "[]" and t = t and rs = rs]
  by (simp add: NewParser_def stateAt_def)

section \<open>External variable initializers\<close>

text \<open>
  C5. An external scalar declaration with no initializer defaults its value to
  \<^verbatim>\<open>Integer(0)\<close>: on the input \<^verbatim>\<open>v ;\<close> (an identifier token, a semicolon token, end of
  input) \<^verbatim>\<open>parseExternalVariableInit\<close> returns \<^verbatim>\<open>ExternVarInit(v, Integer(0))\<close>, and
  \<^verbatim>\<open>Parse\<close>, given fuel for its two rounds, returns the unit holding just this global.
\<close>

theorem extern_scalar_default:
  assumes "kind idt = tkIdent" and "kind sc = tkSemicolon"
    and "pending lx = [LexTok idt, LexTok sc]"
  shows "\<exists>p0 p1. NewParser lx = Ok () p0 \<and>
           parseExternalVariableInit n p0
             = Ok (ExternVarInitNode (tvalue idt) (IntegerNode 0)) p1 \<and>
           Parse prec (Suc (Suc n)) p0
             = Returned \<lparr>File = name lx, Funcs = [],
                         Vars = [ExternVarInitNode (tvalue idt) (IntegerNode 0)]\<rparr> None"
proof -
  let ?p0 = "\<lparr>lex = lx\<lparr>pending := [LexTok sc]\<rparr>, tokens = [idt], tokIdx = 0\<rparr>"
  let ?eof = "(eofTok lx)\<lparr>kind := tkEof\<rparr>"
  let ?p1 = "\<lparr>lex = lx\<lparr>pending := []\<rparr>, tokens = [idt, sc, ?eof], tokIdx = 2\<rparr>"
  let ?node = "ExternVarInitNode (tvalue idt) (IntegerNode 0)"
  have new: "NewParser lx = Ok () ?p0"
    using assms by (simp add: NewParser_def nextToken_def NextToken_def tokenAt_def Let_def)
  have init: "parseExternalVariableInit m ?p0 = Ok ?node ?p1" for m
    using assms
    by (simp add: parseExternalVariableInit_def expectType_def expect_def acceptType_def
        accept_def token_def tokenAt_def nextToken_def NextToken_def Let_def parseConstant_def
        expectOneOf_def tokenErr_def)
  have eof: "acceptType tkEof ?p0 = Ok None ?p0"
    using assms by (simp add: acceptType_def accept_def token_def tokenAt_def)
  have eof1: "\<exists>q. acceptType tkEof ?p1 = Ok (Some ?eof) q"
    by (simp add: acceptType_def accept_def token_def tokenAt_def nextToken_def NextToken_def
        Let_def)
  have top: "parseTopLevel (Suc n) ps ?p0 = Ok ?node ?p1" for ps
    by (simp add: parseTopLevel_def Let_def init)
  have "Parse prec (Suc (Suc n)) ?p0 = Returned \<lparr>File = name lx, Funcs = [], Vars = [?node]\<rparr> None"
    using eof eof1 top by (auto simp add: Parse_def)
  with new init show ?thesis by blast
qed

theorem extern_scalar_default_witness:
  "kind (ident ''v'') = tkIdent \<and> kind (semi) = tkSemicolon \<and>
   pending (lexerOf [LexTok (ident ''v''), LexTok (semi)])
     = [LexTok (ident ''v''), LexTok (semi)] \<and>
   NewParser (lexerOf [LexTok (ident ''v''), LexTok (semi)])
     = Ok () (stateAt [ident ''v''] 0 [LexTok (semi)]) \<and>
   resultNode (parseExternalVariableInit 0
       (stateAt [ident ''v''] 0 [LexTok (semi)]))
     = Some (ExternVarInitNode ''v'' (IntegerNode 0)) \<and>
   Parse OperatorPrecedence 2
       (stateAt [ident ''v''] 0 [LexTok (semi)])
     = Returned \<lparr>File = ''input'', Funcs = [],
                 Vars = [ExternVarInitNode ''v'' (IntegerNode 0)]\<rparr> None"
proof -
  let ?v = "ident ''v''" and ?s = "semi"
  let ?lx = "lexerOf [LexTok ?v, LexTok ?s]"
  have pend: "pending ?lx = [LexTok ?v, LexTok ?s]" by (simp add: lexerOf_def)
  have new: "NewParser ?lx = Ok () (stateAt [?v] 0 [LexTok ?s])" by (rule NewParser_lexerOf)
  from extern_scalar_default [of ?v ?s ?lx 0 OperatorPrecedence, OF _ _ pend]
  obtain p0 p1 where a: "NewParser ?lx = Ok () p0"
    and b: "parseExternalVariableInit 0 p0 = Ok (ExternVarInitNode (tvalue ?v) (IntegerNode 0)) p1"
    and c: "Parse OperatorPrecedence 2 p0
              = Returned \<lparr>File = name ?lx, Funcs = [],
                          Vars = [ExternVarInitNode (tvalue ?v) (IntegerNode 0)]\<rparr> None"
    by (auto simp: numeral_2_eq_2)
  from a new have p0: "p0 = stateAt [?v] 0 [LexTok ?s]" by simp
  from b c show ?thesis
    unfolding p0 using pend new by (simp add: resultNode_def lexerOf_def)
qed

section \<open>Fuel\<close>

text \<open>
  More fuel never changes a result that was reached: every method is monotone in its
  fuel and in its recursive arguments, for the order in which \<open>OutOfFuel\<close> lies below
  every result.
\<close>

lemma le_res_refl [simp, intro!]: "le_res r r"
  by (simp add: le_res_def)

lemma le_res_OutOfFuel [simp, intro!]: "le_res OutOfFuel r"
  by (simp add: le_res_def)

lemma le_res_bind:
  "le_res r r' \<Longrightarrow> (\<And>x p. le_res (f x p) (f' x p)) \<Longrightarrow> le_res (bind r f) (bind r' f')"
  by (cases r; cases r') (auto simp: le_res_def)

lemma le_res_orElse:
  "le_res r r' \<Longrightarrow> (\<And>p. le_res (k p) (k' p)) \<Longrightarrow> le_res (orElse r k) (orElse r' k')"
  by (cases r; cases r') (auto simp: le_res_def)

lemma le_res_attempt:
  "le_res r r' \<Longrightarrow> (\<And>p. le_res (k p) (k' p)) \<Longrightarrow> le_res (attempt pos r k) (attempt pos r' k')"
  by (cases r; cases r') (auto simp: le_res_def)

lemmas le_intros = le_res_bind le_res_orElse le_res_attempt

lemma parseParen_mono:
  assumes "\<And>p. le_res (pe p) (pe' p)"
  shows "le_res (parseParen pe p) (parseParen pe' p)"
  unfolding parseParen_def by (intro le_intros le_res_refl assms)

lemma argsLoop_mono:
  assumes "\<And>p. le_res (pe p) (pe' p)"
  shows "n \<le> n' \<Longrightarrow> le_res (argsLoop n pe args p) (argsLoop n' pe' args p)"
proof (induction n arbitrary: n' args p)
  case 0
  then show ?case by simp
next
  case (Suc n)
  then obtain m where n': "n' = Suc m" and "n \<le> m" by (cases n') auto
  with Suc.IH assms show ?case
    by (auto intro!: le_intros split: option.splits)
qed

lemma parsePrimary_mono:
  assumes "\<And>p. le_res (pe p) (pe' p)" and "n \<le> n'"
  shows "le_res (parsePrimary n pe p) (parsePrimary n' pe' p)"
  unfolding parsePrimary_def using assms
  by (auto intro!: le_intros parseParen_mono argsLoop_mono split: option.splits)

lemma parseSubExpression_mono:
  assumes "\<And>p. le_res (pe p) (pe' p)" and "n \<le> n'"
  shows "le_res (parseSubExpression n pe p) (parseSubExpression n' pe' p)"
  unfolding parseSubExpression_def using assms
  by (auto intro!: le_intros parsePrimary_mono split: option.splits simp: Let_def)

lemma parseExpressionBody_mono:
  assumes "\<And>p. le_res (pe p) (pe' p)" and "n \<le> n'"
  shows "le_res (parseExpressionBody prec n pe p) (parseExpressionBody prec n' pe' p)"
  unfolding parseExpressionBody_def using assms
  by (auto intro!: le_intros parseSubExpression_mono split: option.splits)

lemma parseExpression_mono:
  "n \<le> n' \<Longrightarrow> le_res (parseExpression prec n p) (parseExpression prec n' p)"
proof (induction n arbitrary: n' p)
  case 0
  then show ?case by simp
next
  case (Suc n)
  then obtain m where n': "n' = Suc m" and "n \<le> m" by (cases n') auto
  with Suc.IH [of m] show ?case
    by (simp add: parseExpressionBody_mono)
qed


lemma variableListLoop_mono:
  "n \<le> n' \<Longrightarrow> le_res (variableListLoop n vars tk p) (variableListLoop n' vars tk p)"
proof (induction n arbitrary: n' vars tk p)
  case 0
  then show ?case by simp
next
  case (Suc n)
  then obtain m where n': "n' = Suc m" and "n \<le> m" by (cases n') auto
  with Suc.IH show ?case
    by (auto intro!: le_intros split: option.splits)
qed

lemma parseVariableList_mono:
  "n \<le> n' \<Longrightarrow> le_res (parseVariableList n p) (parseVariableList n' p)"
  unfolding parseVariableList_def
  by (auto intro!: le_intros variableListLoop_mono split: option.splits)

lemma parseExternVarDecl_mono:
  "n \<le> n' \<Longrightarrow> le_res (parseExternVarDecl n p) (parseExternVarDecl n' p)"
  unfolding parseExternVarDecl_def
  by (auto intro!: le_intros parseVariableList_mono)

lemma vecValuesLoop_mono:
  "n \<le> n' \<Longrightarrow> le_res (vecValuesLoop n vals p) (vecValuesLoop n' vals p)"
proof (induction n arbitrary: n' vals p)
  case 0
  then show ?case by simp
next
  case (Suc n)
  then obtain m where n': "n' = Suc m" and "n \<le> m" by (cases n') auto
  with Suc.IH show ?case
    by (auto intro!: le_intros split: option.splits)
qed

lemma parseExternalVariableInit_mono:
  "n \<le> n' \<Longrightarrow> le_res (parseExternalVariableInit n p) (parseExternalVariableInit n' p)"
  unfolding parseExternalVariableInit_def
  by (auto intro!: le_intros vecValuesLoop_mono split: option.splits)

lemma parseFuncDeclaration_mono:
  assumes "\<And>p. le_res (ps p) (ps' p)" and "n \<le> n'"
  shows "le_res (parseFuncDeclaration n ps p) (parseFuncDeclaration n' ps' p)"
  unfolding parseFuncDeclaration_def using assms
  by (auto intro!: le_intros parseVariableList_mono)

lemma parseIf_mono:
  assumes "\<And>p. le_res (pe p) (pe' p)" and "\<And>p. le_res (ps p) (ps' p)"
  shows "le_res (parseIf pe ps p) (parseIf pe' ps' p)"
  unfolding parseIf_def using assms
  by (auto intro!: le_intros split: option.splits)

lemma parseWhile_mono:
  assumes "\<And>p. le_res (pe p) (pe' p)" and "\<And>p. le_res (ps p) (ps' p)"
  shows "le_res (parseWhile pe ps p) (parseWhile pe' ps' p)"
  unfolding parseWhile_def using assms
  by (auto intro!: le_intros)

lemma blockLoop_mono:
  assumes "\<And>p. le_res (ps p) (ps' p)"
  shows "n \<le> n' \<Longrightarrow> le_res (blockLoop n ps nodes p) (blockLoop n' ps' nodes p)"
proof (induction n arbitrary: n' nodes p)
  case 0
  then show ?case by simp
next
  case (Suc n)
  then obtain m where n': "n' = Suc m" and "n \<le> m" by (cases n') auto
  with Suc.IH assms show ?case
    by (auto intro!: le_intros split: option.splits)
qed

lemma parseBlock_mono:
  assumes "\<And>p. le_res (ps p) (ps' p)" and "n \<le> n'"
  shows "le_res (parseBlock n ps p) (parseBlock n' ps' p)"
  unfolding parseBlock_def using assms
  by (auto intro!: le_intros blockLoop_mono)

lemma varDeclLoop_mono:
  "n \<le> n' \<Longrightarrow> le_res (varDeclLoop n vars p) (varDeclLoop n' vars p)"
proof (induction n arbitrary: n' vars p)
  case 0
  then show ?case by simp
next
  case (Suc n)
  then obtain m where n': "n' = Suc m" and "n \<le> m" by (cases n') auto
  with Suc.IH show ?case
    by (auto intro!: le_intros split: option.splits)
qed

lemma parseVarDecl_mono:
  "n \<le> n' \<Longrightarrow> le_res (parseVarDecl n p) (parseVarDecl n' p)"
  unfolding parseVarDecl_def
  by (auto intro!: le_intros varDeclLoop_mono)

lemma caseBodyLoop_mono:
  assumes "\<And>p. le_res (ps p) (ps' p)"
  shows "n \<le> n' \<Longrightarrow> le_res (caseBodyLoop n ps stmts p) (caseBodyLoop n' ps' stmts p)"
proof (induction n arbitrary: n' stmts p)
  case 0
  then show ?case by simp
next
  case (Suc n)
  then obtain m where n': "n' = Suc m" and "n \<le> m" by (cases n') auto
  with Suc.IH assms show ?case
    by (auto intro!: le_intros split: option.splits)
qed

lemma switchLoop_mono:
  assumes "\<And>p. le_res (ps p) (ps' p)"
  shows "n \<le> n' \<Longrightarrow>
    le_res (switchLoop n ps cond dflt cases p) (switchLoop n' ps' cond dflt cases p)"
proof (induction n arbitrary: n' dflt cases p)
  case 0
  then show ?case by simp
next
  case (Suc n)
  then obtain m where n': "n' = Suc m" and "n \<le> m" by (cases n') auto
  with Suc.IH assms show ?case
    by (auto intro!: le_intros caseBodyLoop_mono split: option.splits)
qed

lemma parseSwitch_mono:
  assumes "\<And>p. le_res (pe p) (pe' p)" and "\<And>p. le_res (ps p) (ps' p)" and "n \<le> n'"
  shows "le_res (parseSwitch n pe ps p) (parseSwitch n' pe' ps' p)"
  unfolding parseSwitch_def using assms
  by (auto intro!: le_intros switchLoop_mono)

lemma exprStatement_mono:
  assumes "\<And>p. le_res (pe p) (pe' p)"
  shows "le_res (exprStatement pos pe p) (exprStatement pos pe' p)"
  using assms [of p] unfolding exprStatement_def
  by (auto simp: le_res_def)

lemma parseStatementBody_mono:
  assumes "\<And>p. le_res (pe p) (pe' p)" and "\<And>p. le_res (ps p) (ps' p)" and "n \<le> n'"
  shows "le_res (parseStatementBody n pe ps p) (parseStatementBody n' pe' ps' p)"
  unfolding parseStatementBody_def Let_def using assms
  by (auto intro!: le_intros parseIf_mono parseBlock_mono parseVarDecl_mono
      parseExternVarDecl_mono parseWhile_mono parseSwitch_mono exprStatement_mono
      split: option.splits)

lemma parseStatement_mono:
  "n \<le> n' \<Longrightarrow> le_res (parseStatement prec n p) (parseStatement prec n' p)"
proof (induction n arbitrary: n' p)
  case 0
  then show ?case by simp
next
  case (Suc n)
  then obtain m where n': "n' = Suc m" and "n \<le> m" by (cases n') auto
  with Suc.IH [of m] show ?case
    by (simp add: parseStatementBody_mono parseExpression_mono)
qed

lemma parseTopLevel_mono:
  assumes "\<And>p. le_res (ps p) (ps' p)" and "n \<le> n'"
  shows "le_res (parseTopLevel n ps p) (parseTopLevel n' ps' p)"
proof -
  have a: "le_res (parseExternalVariableInit n p) (parseExternalVariableInit n' p)"
    using assms(2) by (rule parseExternalVariableInit_mono)
  have b: "le_res (parseFuncDeclaration n ps q) (parseFuncDeclaration n' ps' q)" for q
    using assms by (rule parseFuncDeclaration_mono)
  show ?thesis
  proof (cases "parseExternalVariableInit n p")
    case (Err e p1)
    with a have "parseExternalVariableInit n' p = Err e p1" by (simp add: le_res_def)
    with Err b [of "p1\<lparr>tokIdx := tokIdx p\<rparr>"] show ?thesis
      by (auto simp: parseTopLevel_def Let_def le_res_def split: res.splits)
  next
    case (Ok x q)
    with a have "parseExternalVariableInit n' p = Ok x q" by (simp add: le_res_def)
    with Ok show ?thesis by (simp add: parseTopLevel_def Let_def)
  next
    case (Panic v)
    with a have "parseExternalVariableInit n' p = Panic v" by (simp add: le_res_def)
    with Panic show ?thesis by (simp add: parseTopLevel_def Let_def)
  next
    case OutOfFuel
    then show ?thesis by (simp add: parseTopLevel_def Let_def)
  qed
qed

lemma parseLoop_mono:
  assumes "\<And>p. le_res (ps p) (ps' p)"
  shows "n \<le> n' \<Longrightarrow> le_outcome (parseLoop n ps unit p) (parseLoop n' ps' unit p)"
proof (induction n arbitrary: n' unit p)
  case 0
  then show ?case by (simp add: le_outcome_def)
next
  case (Suc n)
  then obtain m where n': "n' = Suc m" and nm: "n \<le> m" by (cases n') auto
  have top: "le_res (parseTopLevel n ps q) (parseTopLevel m ps' q)" for q
    using assms nm by (rule parseTopLevel_mono)
  show ?case
  proof (cases "acceptType tkEof p")
    case (Ok r p1)
    show ?thesis
    proof (cases r)
      case None
      show ?thesis
      proof (cases "parseTopLevel n ps p1")
        case (Ok node p2)
        with top [of p1] have "parseTopLevel m ps' p1 = Ok node p2" by (simp add: le_res_def)
        with Ok \<open>acceptType tkEof p = Ok r p1\<close> None Suc.IH [OF nm] show ?thesis
          by (cases node) (auto simp: n' le_outcome_def)
      next
        case (Err e p2)
        with top [of p1] have "parseTopLevel m ps' p1 = Err e p2" by (simp add: le_res_def)
        with Err \<open>acceptType tkEof p = Ok r p1\<close> None show ?thesis
          by (simp add: n' le_outcome_def)
      next
        case (Panic v)
        with top [of p1] have "parseTopLevel m ps' p1 = Panic v" by (simp add: le_res_def)
        with Panic \<open>acceptType tkEof p = Ok r p1\<close> None show ?thesis
          by (simp add: n' le_outcome_def)
      next
        case OutOfFuel
        with \<open>acceptType tkEof p = Ok r p1\<close> None show ?thesis
          by (simp add: n' le_outcome_def)
      qed
    qed (use Ok in \<open>simp add: n' le_outcome_def\<close>)
  qed (simp_all add: n' le_outcome_def)
qed

text \<open>
  Fuel only decides whether a run is cut off: a call of \<^verbatim>\<open>Parse\<close> that is not cut off
  gives the same result with any larger fuel. The same holds for \<open>parseExpression\<close>
  and \<open>parseStatement\<close> (\<open>parseExpression_mono\<close>, \<open>parseStatement_mono\<close>).
\<close>

lemma Parse_fuel:
  assumes "n \<le> n'" and "Parse prec n p \<noteq> Diverged"
  shows "Parse prec n' p = Parse prec n p"
proof -
  let ?u = "\<lparr>File = name (lex p), Funcs = [], Vars = []\<rparr>"
  have ps: "le_res (parseStatement prec n q) (parseStatement prec n' q)" for q
    using assms(1) by (rule parseStatement_mono)
  from parseLoop_mono [of "parseStatement prec n" "parseStatement prec n'", OF ps assms(1)]
  have "le_outcome (parseLoop n (parseStatement prec n) ?u p) (parseLoop n' (parseStatement prec n') ?u p)" .
  moreover from assms(2) have "parseLoop n (parseStatement prec n) ?u p \<noteq> Diverged"
    by (auto simp: Parse_def)
  ultimately show ?thesis by (simp add: Parse_def le_outcome_def)
qed

lemma NewParser_parserOn: "NewParser (lexerOf (map LexTok ts)) = Ok () (parserOn ts)"
proof (cases ts)
  case Nil
  with nextToken_eof [where i = "- 1" and buf = "[]"] show ?thesis
    by (simp add: NewParser_def stateAt_def)
next
  case (Cons t rest)
  then show ?thesis by (simp add: NewParser_lexerOf)
qed

section \<open>Top-level declarations\<close>

text \<open>
  C1. \<^verbatim>\<open>parseTopLevel\<close> first tries an external variable initializer and returns its
  node when it succeeds. If the attempt fails having consumed exactly one token, the
  token index is set back to the saved position and a function declaration is tried
  from there (its error is returned when it consumed a token, the error
  \<^verbatim>\<open>expected top level decl\<close> otherwise). If the attempt fails having consumed more than
  one token, that error is returned and the function declaration is not tried.
\<close>

theorem parseTopLevel_alternatives:
  "(parseExternalVariableInit n p = Ok node p1 \<longrightarrow> parseTopLevel n ps p = Ok node p1) \<and>
   (parseExternalVariableInit n p = Err e p1 \<and> tokIdx p1 = tokIdx p + 1 \<longrightarrow>
      parseTopLevel n ps p =
        (case parseFuncDeclaration n ps (p1\<lparr>tokIdx := tokIdx p\<rparr>) of
           Ok fn p2 \<Rightarrow> Ok fn p2
         | Err e2 p2 \<Rightarrow>
             if tokIdx p2 \<noteq> tokIdx p then Err e2 p2
             else tokenErr p2 (Message ''expected top level decl'')
         | Panic v \<Rightarrow> Panic v
         | OutOfFuel \<Rightarrow> OutOfFuel)) \<and>
   (parseExternalVariableInit n p = Err e p1 \<and> tokIdx p1 > tokIdx p + 1 \<longrightarrow>
      parseTopLevel n ps p = Err e p1)"
  by (simp add: parseTopLevel_def Let_def)

text \<open>
  Two instances: on \<^verbatim>\<open>f ( ) ;\<close> the initializer fails at \<^verbatim>\<open>(\<close>, one token in, and the
  function \<^verbatim>\<open>f\<close> with the empty statement as its body is parsed from the start; on
  \<^verbatim>\<open>v [ x\<close> the initializer fails at \<^verbatim>\<open>x\<close>, two tokens in, and that error is the result.
\<close>

theorem parseTopLevel_alternatives_witness:
  "parseExternalVariableInit 2 (parserOn [ident ''f'', oparen, cparen, semi])
     = Err (ParseError oparen (Expected tkSemicolon))
         (stateAt [ident ''f'', oparen] 1 [LexTok cparen, LexTok semi]) \<and>
   tokIdx (stateAt [ident ''f'', oparen] 1 [LexTok cparen, LexTok semi])
     = tokIdx (parserOn [ident ''f'', oparen, cparen, semi]) + 1 \<and>
   parseTopLevel 2 (parseStatement OperatorPrecedence 2) (parserOn [ident ''f'', oparen, cparen, semi])
     = Ok (FunctionNode ''f'' [] NullNode)
         (stateAt [ident ''f'', oparen, cparen, semi, mkToken tkEof []] 4 []) \<and>
   parseExternalVariableInit 2 (parserOn [ident ''v'', obracket, ident ''x''])
     = Err (ParseError (ident ''x'') (Expected tkNumber))
         (stateAt [ident ''v'', obracket, ident ''x''] 2 []) \<and>
   tokIdx (stateAt [ident ''v'', obracket, ident ''x''] 2 [])
     > tokIdx (parserOn [ident ''v'', obracket, ident ''x'']) + 1 \<and>
   parseTopLevel 2 (parseStatement OperatorPrecedence 2) (parserOn [ident ''v'', obracket, ident ''x''])
     = Err (ParseError (ident ''x'') (Expected tkNumber))
         (stateAt [ident ''v'', obracket, ident ''x''] 2 [])"
proof -
  let ?ps = "parseStatement OperatorPrecedence 2"
  let ?p = "parserOn [ident ''f'', oparen, cparen, semi]"
  let ?p1 = "stateAt [ident ''f'', oparen] 1 [LexTok cparen, LexTok semi]"
  let ?e = "ParseError oparen (Expected tkSemicolon)"
  let ?q = "parserOn [ident ''v'', obracket, ident ''x'']"
  let ?q1 = "stateAt [ident ''v'', obracket, ident ''x''] 2 []"
  let ?e' = "ParseError (ident ''x'') (Expected tkNumber)"
  have init: "parseExternalVariableInit 2 ?p = Err ?e ?p1"
    by (simp add: run_simps)
  have fn: "parseFuncDeclaration 2 ?ps (?p1\<lparr>tokIdx := tokIdx ?p\<rparr>)
      = Ok (FunctionNode ''f'' [] NullNode)
          (stateAt [ident ''f'', oparen, cparen, semi, mkToken tkEof []] 4 [])"
    by (simp add: run_simps)
  have init': "parseExternalVariableInit 2 ?q = Err ?e' ?q1"
    by (simp add: run_simps)
  from parseTopLevel_alternatives [of 2 ?p _ ?p1 ?ps ?e] init fn
  have one: "parseTopLevel 2 ?ps ?p
      = Ok (FunctionNode ''f'' [] NullNode)
          (stateAt [ident ''f'', oparen, cparen, semi, mkToken tkEof []] 4 [])"
    by simp
  from parseTopLevel_alternatives [of 2 ?q _ ?q1 ?ps ?e'] init'
  have more: "parseTopLevel 2 ?ps ?q = Err ?e' ?q1"
    by simp
  from init init' one more show ?thesis by simp
qed

section \<open>The result of \<^verbatim>\<open>Parse\<close> on a syntax error\<close>





section \<open>Expressions\<close>

text \<open>
  C3, as the code has it. For an expression \<^verbatim>\<open>a op1 b op2 c\<close> over identifiers (neither
  operator being \<^verbatim>\<open>++\<close> or \<^verbatim>\<open>--\<close>, which are taken as postfix operators), with any
  precedence table and enough fuel, \<^verbatim>\<open>parseExpression\<close> produces the left-nested tree
  \<^verbatim>\<open>Binary(Binary(a, op1, b), op2, c)\<close> only when \<^verbatim>\<open>op1\<close> has strictly higher precedence
  than \<^verbatim>\<open>op2\<close>; otherwise, so for two operators of the same precedence level, it produces
  the right-nested tree \<^verbatim>\<open>Binary(a, op1, Binary(b, op2, c))\<close>. No level is treated as
  left-associative.
\<close>

theorem parseExpression_two_operators:
  assumes "kind ta = tkIdent" "kind tb = tkIdent" "kind tc = tkIdent"
    and "kind o1 = tkOperator" "kind o2 = tkOperator"
    and "tvalue o1 \<noteq> ''++''" "tvalue o1 \<noteq> ''--''" "tvalue o2 \<noteq> ''++''" "tvalue o2 \<noteq> ''--''"
    and "kind sc = tkSemicolon"
  shows "resultNode (parseExpression prec (Suc (Suc (Suc n)))
           (stateAt [ta] 0 (LexTok o1 # LexTok tb # LexTok o2 # LexTok tc # LexTok sc # rs)))
         = Some (if prec (tvalue o1) > prec (tvalue o2)
                 then BinaryNode
                        (BinaryNode (IdentNode (tvalue ta)) (tvalue o1) (IdentNode (tvalue tb)))
                        (tvalue o2) (IdentNode (tvalue tc))
                 else BinaryNode (IdentNode (tvalue ta)) (tvalue o1)
                        (BinaryNode (IdentNode (tvalue tb)) (tvalue o2) (IdentNode (tvalue tc))))"
  using assms by (simp add: run_simps)

text \<open>The input \<^verbatim>\<open>a - b - c ;\<close> yields \<^verbatim>\<open>a - (b - c)\<close>, not \<^verbatim>\<open>(a - b) - c\<close>.\<close>

theorem parseExpression_two_operators_counterexample:
  "resultNode (parseExpression OperatorPrecedence 3
       (parserOn [ident ''a'', oper ''-'', ident ''b'', oper ''-'', ident ''c'', semi]))
     = Some (BinaryNode (IdentNode ''a'') ''-'' (BinaryNode (IdentNode ''b'') ''-'' (IdentNode ''c''))) \<and>
   resultNode (parseExpression OperatorPrecedence 3
       (parserOn [ident ''a'', oper ''-'', ident ''b'', oper ''-'', ident ''c'', semi]))
     \<noteq> Some (BinaryNode (BinaryNode (IdentNode ''a'') ''-'' (IdentNode ''b'')) ''-'' (IdentNode ''c''))"
  by (simp add: run_simps)

theorem parseExpression_two_operators_witness:
  "kind (ident ''a'') = tkIdent \<and> kind (oper ''*'') = tkOperator \<and> kind semi = tkSemicolon \<and>
   tvalue (oper ''*'') \<noteq> ''++'' \<and> tvalue (oper ''*'') \<noteq> ''--'' \<and>
   tvalue (oper ''+'') \<noteq> ''++'' \<and> tvalue (oper ''+'') \<noteq> ''--'' \<and>
   OperatorPrecedence ''*'' > OperatorPrecedence ''+'' \<and>
   resultNode (parseExpression OperatorPrecedence 3
       (parserOn [ident ''a'', oper ''*'', ident ''b'', oper ''+'', ident ''c'', semi]))
     = Some (BinaryNode (BinaryNode (IdentNode ''a'') ''*'' (IdentNode ''b'')) ''+'' (IdentNode ''c'')) \<and>
   resultNode (parseExpression OperatorPrecedence 3
       (parserOn [ident ''a'', oper ''+'', ident ''b'', oper ''+'', ident ''c'', semi]))
     = Some (BinaryNode (IdentNode ''a'') ''+'' (BinaryNode (IdentNode ''b'') ''+'' (IdentNode ''c'')))"
proof -
  have three: "(3::nat) = Suc (Suc (Suc 0))" by simp
  from parseExpression_two_operators [of "ident ''a''" "ident ''b''" "ident ''c''" "oper ''*''"
      "oper ''+''" semi OperatorPrecedence 0 "[]"]
  have times: "resultNode (parseExpression OperatorPrecedence 3
       (parserOn [ident ''a'', oper ''*'', ident ''b'', oper ''+'', ident ''c'', semi]))
     = Some (BinaryNode (BinaryNode (IdentNode ''a'') ''*'' (IdentNode ''b'')) ''+'' (IdentNode ''c''))"
    unfolding three by (simp add: OperatorPrecedence_def)
  from parseExpression_two_operators [of "ident ''a''" "ident ''b''" "ident ''c''" "oper ''+''"
      "oper ''+''" semi OperatorPrecedence 0 "[]"]
  have plus: "resultNode (parseExpression OperatorPrecedence 3
       (parserOn [ident ''a'', oper ''+'', ident ''b'', oper ''+'', ident ''c'', semi]))
     = Some (BinaryNode (IdentNode ''a'') ''+'' (BinaryNode (IdentNode ''b'') ''+'' (IdentNode ''c'')))"
    unfolding three by simp
  from times plus show ?thesis by (simp add: OperatorPrecedence_def)
qed

section \<open>Primary expressions\<close>

lemma bind_Ok: "bind r f = Ok y q \<Longrightarrow> \<exists>x p1. r = Ok x p1 \<and> f x p1 = Ok y q"
  by (cases r) simp_all

lemma orElse_Ok:
  "orElse r k = Ok y q \<Longrightarrow> r = Ok y q \<or> (\<exists>e p1. r = Err e p1 \<and> k p1 = Ok y q)"
  by (cases r) simp_all

lemma parseConstant_constant: "parseConstant p = Ok node q \<Longrightarrow> isConstant node"
  by (auto simp: parseConstant_def tokenErr_not_Ok dest!: bind_Ok split: if_splits option.splits)

lemma isConstant_base: "isConstant node \<Longrightarrow> isPrimaryBase node"
  by (cases node) simp_all

lemma parseParen_base: "parseParen pe p = Ok node q \<Longrightarrow> isPrimaryBase node"
  by (auto simp: parseParen_def dest!: bind_Ok)

lemma parseIdent_base: "parseIdent p = Ok node q \<Longrightarrow> isPrimaryBase node"
  by (auto simp: parseIdent_def dest!: bind_Ok)

lemma isPrimaryBase_atMostOnePostfix: "isPrimaryBase node \<Longrightarrow> atMostOnePostfix node"
  by (cases node) simp_all

text \<open>
  C4, as the code has it. \<^verbatim>\<open>parsePrimary\<close> applies the postfix operators for array
  access and function call at most once: whatever it returns is a parenthesised
  expression, a constant or an identifier, or one array access or one function call on
  such a node. It does not parse a chain: after one postfix operator it returns.
\<close>

theorem parsePrimary_one_postfix:
  assumes "parsePrimary n pe p = Ok node q"
  shows "atMostOnePostfix node"
proof -
  from assms obtain base p4 where
    head: "orElse (parseParen pe p) (\<lambda>p1. orElse (parseConstant p1) (\<lambda>p2. orElse (parseIdent p2)
             (\<lambda>p3. tokenErr p3 (Message ''expected primary expression'')))) = Ok base p4"
    and rest: "bind (acceptType tkOpenBracket p4) (\<lambda>ob p5.
       case ob of
         Some _ \<Rightarrow>
           bind (pe p5) (\<lambda>index p6.
           bind (expectType tkCloseBracket p6) (\<lambda>_ p7.
             Ok (ArrayAccessNode base index) p7))
       | None \<Rightarrow>
           bind (acceptType tkOpenParen p5) (\<lambda>op p6.
             case op of
               Some _ \<Rightarrow>
                 bind (case token p6 of
                         None \<Rightarrow> Panic RuntimeError
                       | Some cur \<Rightarrow>
                           if kind cur \<noteq> tkCloseParen then argsLoop n pe [] p6
                           else Ok [] p6) (\<lambda>args p7.
                 bind (expectType tkCloseParen p7) (\<lambda>_ p8.
                   Ok (FunctionCallNode base args) p8))
             | None \<Rightarrow> Ok base p6)) = Ok node q"
    unfolding parsePrimary_def by (blast dest: bind_Ok)
  from head have base: "isPrimaryBase base"
    by (auto dest!: orElse_Ok simp: tokenErr_not_Ok
        intro: parseParen_base parseConstant_constant [THEN isConstant_base] parseIdent_base)
  from rest base show ?thesis
    by (auto dest!: bind_Ok split: option.splits simp: isPrimaryBase_atMostOnePostfix)
qed

text \<open>
  On \<^verbatim>\<open>a [ 1 ] [ 2 ]\<close> the result is \<^verbatim>\<open>ArrayAccess(a, 1)\<close> with the parser left at the
  second \<^verbatim>\<open>[\<close> (index 4), not the nested \<^verbatim>\<open>ArrayAccess(ArrayAccess(a, 1), 2)\<close>.
\<close>

theorem parsePrimary_one_postfix_counterexample:
  "resultNode (parsePrimary 3 (parseExpression OperatorPrecedence 3)
       (parserOn [ident ''a'', obracket, number ''1'', cbracket, obracket, number ''2'', cbracket]))
     = Some (ArrayAccessNode (IdentNode ''a'') (IntegerNode 1)) \<and>
   resultIdx (parsePrimary 3 (parseExpression OperatorPrecedence 3)
       (parserOn [ident ''a'', obracket, number ''1'', cbracket, obracket, number ''2'', cbracket]))
     = Some 4 \<and>
   resultNode (parsePrimary 3 (parseExpression OperatorPrecedence 3)
       (parserOn [ident ''a'', obracket, number ''1'', cbracket, obracket, number ''2'', cbracket]))
     \<noteq> Some (ArrayAccessNode (ArrayAccessNode (IdentNode ''a'') (IntegerNode 1)) (IntegerNode 2))"
  by (simp add: run_simps resultIdx_def)

theorem parsePrimary_one_postfix_witness:
  "parsePrimary 3 (parseExpression OperatorPrecedence 3)
       (parserOn [ident ''f'', oparen, ident ''x'', cparen, oparen, ident ''y'', cparen])
     = Ok (FunctionCallNode (IdentNode ''f'') [IdentNode ''x''])
         (stateAt [ident ''f'', oparen, ident ''x'', cparen, oparen] 4
            [LexTok (ident ''y''), LexTok cparen]) \<and>
   atMostOnePostfix (FunctionCallNode (IdentNode ''f'') [IdentNode ''x''])"
proof -
  have run: "parsePrimary 3 (parseExpression OperatorPrecedence 3)
       (parserOn [ident ''f'', oparen, ident ''x'', cparen, oparen, ident ''y'', cparen])
     = Ok (FunctionCallNode (IdentNode ''f'') [IdentNode ''x''])
         (stateAt [ident ''f'', oparen, ident ''x'', cparen, oparen] 4
            [LexTok (ident ''y''), LexTok cparen])"
    by (simp add: run_simps)
  from parsePrimary_one_postfix [OF run] run show ?thesis by blast
qed

section \<open>Statements that start with an identifier\<close>




section \<open>Switch statements\<close>

lemma switchLoop_case_conditions:
  "switchLoop n ps cond dflt cases p = Ok node q \<Longrightarrow>
   list_all (\<lambda>c. isConstant (caseCond c)) cases \<Longrightarrow>
   \<exists>d cs. node = SwitchNode cond d cs \<and> list_all (\<lambda>c. isConstant (caseCond c)) cs"
proof (induction n arbitrary: dflt cases p)
  case 0
  then show ?case by simp
next
  case (Suc n)
  from Suc.prems show ?case
    apply (auto simp: tokenErr_not_Ok dest!: bind_Ok parseConstant_constant
        split: option.splits if_splits)
     apply (erule Suc.IH, simp)
    apply (erule Suc.IH, simp)
    done
qed

text \<open>The conditions of the cases of a parsed switch are constants.\<close>

lemma parseSwitch_case_conditions:
  assumes "parseSwitch n pe ps p = Ok node q"
  shows "\<exists>c d cs. node = SwitchNode c d cs \<and> list_all (\<lambda>cn. isConstant (caseCond cn)) cs"
proof -
  from assms obtain c p5 where "switchLoop n ps c None [] p5 = Ok node q"
    unfolding parseSwitch_def by (blast dest: bind_Ok)
  from switchLoop_case_conditions [OF this] show ?thesis by auto
qed

text \<open>
  C7. A second \<^verbatim>\<open>default\<close> label of a switch is meant to be a syntax error. The code
  misses it when the first \<^verbatim>\<open>default\<close> has no statements: \<^verbatim>\<open>parseSwitch\<close> recognises an earlier
  \<^verbatim>\<open>default\<close> by \<^verbatim>\<open>switchNode.DefaultCase != nil\<close>, and the slice is still nil then. The
  program \<^verbatim>\<open>f() switch (x) { default: default: break; }\<close> is accepted, with the single
  default case \<^verbatim>\<open>[Break]\<close>, while \<^verbatim>\<open>f() switch (x) { default: break; default: break; }\<close>
  is rejected as intended.
\<close>

theorem parseSwitch_second_default:
  "Parse OperatorPrecedence 6
       (parserOn [ident ''f'', oparen, cparen,
                  keyword ''switch'', oparen, ident ''x'', cparen, obrace,
                  keyword ''default'', colon, keyword ''default'', colon,
                  keyword ''break'', semi, cbrace])
     = Returned \<lparr>File = ''input'',
                 Funcs = [FunctionNode ''f'' []
                            (SwitchNode (IdentNode ''x'') (Some [BreakNode]) [])],
                 Vars = []\<rparr> None \<and>
   Parse OperatorPrecedence 6
       (parserOn [ident ''f'', oparen, cparen,
                  keyword ''switch'', oparen, ident ''x'', cparen, obrace,
                  keyword ''default'', colon, keyword ''break'', semi,
                  keyword ''default'', colon, keyword ''break'', semi, cbrace])
     = Returned \<lparr>File = ''input'', Funcs = [], Vars = []\<rparr>
         (Some (ParseError (keyword ''break'') (Message ''Multiple 'default' cases'')))"
  by code_simp

section \<open>Lex errors\<close>

text \<open>A lex error on the very first token: \<^verbatim>\<open>NewParser\<close> panics with it.\<close>

lemma NewParser_first_lex_error:
  "pending lx = LexErr t m # rs \<Longrightarrow> NewParser lx = Panic (PanicErr (LexError t m))"
  by (simp add: NewParser_def nextToken_def NextToken_def Let_def)

text \<open>A lex error met by \<^verbatim>\<open>accept\<close> is trapped: on \<^verbatim>\<open>v\<close> followed by a bad character,
  \<^verbatim>\<open>Parse\<close> returns the empty unit and the lex error.\<close>

lemma Parse_lex_error_trapped:
  "Parse OperatorPrecedence 3
     (stateAt [ident ''v''] 0 [LexErr (mkToken tkError ''?'') ''unexpected character''])
   = Returned emptyUnit (Some (LexError (mkToken tkError ''?'') ''unexpected character''))"
  by (simp add: run_simps)

text \<open>
  C9. A lex error on a token after the first is meant to be trapped by \<^verbatim>\<open>Parse\<close>. The
  code misses it when the error comes up in \<^verbatim>\<open>expectOneOf\<close>, which drops the error of
  \<^verbatim>\<open>nextToken\<close>: on \<^verbatim>\<open>v 1\<close> followed by a bad character, \<^verbatim>\<open>NewParser\<close> succeeds,
  \<^verbatim>\<open>parseConstant\<close> consumes \<^verbatim>\<open>1\<close> and leaves the index past the end of the token
  buffer, and the next \<^verbatim>\<open>p.token()\<close> panics with a runtime error, which the deferred
  function of \<^verbatim>\<open>Parse\<close> raises again.
\<close>

theorem Parse_lex_error_after_constant:
  "NewParser (lexerOf [LexTok (ident ''v''), LexTok (number ''1''),
                       LexErr (mkToken tkError ''?'') ''unexpected character''])
     = Ok () (stateAt [ident ''v''] 0
                [LexTok (number ''1''), LexErr (mkToken tkError ''?'') ''unexpected character'']) \<and>
   Parse OperatorPrecedence 3
       (stateAt [ident ''v''] 0
          [LexTok (number ''1''), LexErr (mkToken tkError ''?'') ''unexpected character''])
     = Panicked RuntimeError"
  by (simp add: run_simps NewParser_lexerOf)

end
